theory Spec2Isabelle
  imports Main "HOL-Library.Sublist"
begin

section \<open>The launcher of FQuake3 (src/C/FQuake3/main.c)\<close>

text \<open>
  The file holds two global strings, a table of two command-line options and the
  function \<open>main\<close>. \<open>main\<close> builds an option context, parses the command line, and then
  either reports the parse error and returns 1, or creates a Mono domain, loads five
  assemblies, executes \<open>Launcher.exe\<close>, frees the domain and the option context and
  returns 0. Everything \<open>main\<close> does is a call into GLib or into the hosting library
  \<open>m.h\<close>, so the model of \<open>main\<close> records the calls in the order they are made.
\<close>

subsection \<open>Globals and the option table\<close>

text \<open>
  \<open>static gchar* mono_lib = "Mono\\lib"; static gchar* mono_etc = "Mono\\etc";\<close>
  The C literal \<open>"Mono\\lib"\<close> is the eight characters \<open>Mono\lib\<close>; the backslash is
  character 0x5C.
\<close>

record globals =
  mono_lib :: string
  mono_etc :: string

definition globals_init :: globals where
  "globals_init =
     \<lparr>mono_lib = ''Mono'' @ CHR 0x5C # ''lib'',
      mono_etc = ''Mono'' @ CHR 0x5C # ''etc''\<rparr>"

text \<open>The addresses \<open>&mono_lib\<close> and \<open>&mono_etc\<close> stored in the option table.\<close>

datatype global_ref = Ref_mono_lib | Ref_mono_etc

datatype g_option_arg = G_OPTION_ARG_NONE | G_OPTION_ARG_STRING

text \<open>
  One row of \<open>option_entries\<close>: the fields of GLib's \<open>GOptionEntry\<close> in the order of
  the initialiser. \<open>short_name\<close> 0 is the NUL character, \<open>arg_description\<close> \<open>NULL\<close> is
  \<open>None\<close>. The closing row \<open>{ NULL }\<close> ends the table, as the end of the list does here.
\<close>

record g_option_entry =
  long_name :: string
  short_name :: char
  flags :: int
  arg :: g_option_arg
  arg_data :: global_ref
  description :: string
  arg_description :: "string option"

definition option_entries :: "g_option_entry list" where
  "option_entries =
     [\<lparr>long_name = ''mono-lib'', short_name = CHR 0x00, flags = 0,
       arg = G_OPTION_ARG_STRING, arg_data = Ref_mono_lib,
       description = ''Mono lib directory path'', arg_description = None\<rparr>,
      \<lparr>long_name = ''mono-etc'', short_name = CHR 0x00, flags = 0,
       arg = G_OPTION_ARG_STRING, arg_data = Ref_mono_etc,
       description = ''Mono etc directory path'', arg_description = None\<rparr>]"

subsection \<open>The external calls\<close>

text \<open>
  The calls \<open>main\<close> makes, with their arguments. \<open>'c\<close> is the type of the option
  context handle (\<open>GOptionContext*\<close>), \<open>'d\<close> the type of the domain handle
  (\<open>MDomain*\<close>). \<open>G_option_context_parse\<close> carries the argument vector it is given
  (\<open>argc\<close> is its length); \<open>M_domain_exec\<close> carries \<open>argc\<close> and \<open>argv\<close> as passed.
  The third argument of \<open>g_option_context_add_main_entries\<close> is the translation
  domain, \<open>NULL\<close> in the source.
\<close>

datatype ('c, 'd) call =
    is_option_context_new: G_option_context_new string
  | is_add_main_entries: G_option_context_add_main_entries 'c "g_option_entry list" "string option"
  | is_option_context_parse: G_option_context_parse 'c "string list"
  | is_print: G_print string
  | is_domain_new: M_domain_new string string string
  | is_load_assembly: M_load_assembly string
  | is_domain_exec: M_domain_exec 'd string int "string list"
  | is_domain_free: M_domain_free 'd
  | is_option_context_free: G_option_context_free 'c

text \<open>
  What the external calls give back to \<open>main\<close>. Only three results are ever bound by the
  source: the context returned by \<open>g_option_context_new\<close>, the outcome of
  \<open>g_option_context_parse\<close> and the domain returned by \<open>m_domain_new\<close>. The parser is
  given the option table and the globals the table points to; it answers either with
  the message of the \<open>GError\<close> it sets (\<open>Inl\<close>, the call returned false), or with the
  globals as it leaves them and the argument vector as it leaves it (\<open>Inr\<close>). It
  updates \<open>argc\<close> together with \<open>argv\<close>, so \<open>argc\<close> is the length of the vector it
  leaves.
\<close>

record ('c, 'd) host =
  g_option_context_new :: "string \<Rightarrow> 'c"
  g_option_context_parse ::
    "g_option_entry list \<Rightarrow> globals \<Rightarrow> string list \<Rightarrow> string + globals \<times> string list"
  m_domain_new :: "string \<Rightarrow> string \<Rightarrow> string \<Rightarrow> 'd"

subsection \<open>main\<close>

text \<open>The result of a run: the value \<open>main\<close> returns and the calls it made, in order.\<close>

record ('c, 'd) run =
  status :: int
  calls :: "('c, 'd) call list"

definition main :: "('c, 'd) host \<Rightarrow> string list \<Rightarrow> ('c, 'd) run" where
  "main H argv =
     (let option_context = g_option_context_new H ''- options for mono'';
          t = [G_option_context_new ''- options for mono''];
          t = t @ [G_option_context_add_main_entries option_context option_entries None];
          t = t @ [G_option_context_parse option_context argv]
      in case g_option_context_parse H option_entries globals_init argv of
           Inl message \<Rightarrow>
             (let t = t @ [G_print (''Invalid option: '' @ message @ [CHR 0x0A])]
              in \<lparr>status = 1, calls = t\<rparr>)
         | Inr (g, argv') \<Rightarrow>
             (let domain = m_domain_new H (mono_lib g) (mono_etc g) ''Launcher.exe'';
                  t = t @ [M_domain_new (mono_lib g) (mono_etc g) ''Launcher.exe''];
                  t = t @ [M_load_assembly ''FSharp.Core.dll''];
                  t = t @ [M_load_assembly ''FQuake3.Utils.dll''];
                  t = t @ [M_load_assembly ''Engine.dll''];
                  t = t @ [M_load_assembly ''Engine.Renderer.dll''];
                  t = t @ [M_load_assembly ''CGame.dll''];
                  t = t @ [M_domain_exec domain ''Launcher.exe'' (int (length argv')) argv'];
                  t = t @ [M_domain_free domain];
                  t = t @ [G_option_context_free option_context]
              in \<lparr>status = 0, calls = t\<rparr>))"

subsection \<open>Observing a run\<close>

text \<open>
  \<open>g_print\<close> writes to standard output, and it is the only call of \<open>main\<close> that
  prints: the text \<open>main\<close> prints is the concatenation of the strings it gives to
  \<open>g_print\<close>.
\<close>

definition printed :: "('c, 'd) call \<Rightarrow> string" where
  "printed c = (case c of G_print s \<Rightarrow> s | _ \<Rightarrow> [])"

definition stdout_text :: "('c, 'd) call list \<Rightarrow> string" where
  "stdout_text t = concat (map printed t)"

text \<open>The calls into the hosting library \<open>m.h\<close>.\<close>

definition is_hosting_call :: "('c, 'd) call \<Rightarrow> bool" where
  "is_hosting_call c \<longleftrightarrow>
     is_domain_new c \<or> is_load_assembly c \<or> is_domain_exec c \<or> is_domain_free c"

subsection \<open>The option parser\<close>

text \<open>
  Modelled from the spec: the option parser \<open>g_option_context_parse\<close>, a function of
  GLib that \<open>main\<close> calls and whose code is not among the sources. The spec (sections
  4.1, 6 and 8) describes it for the table above: the two long options \<open>--mono-lib\<close> and
  \<open>--mono-etc\<close> take a string, written \<open>--name=VALUE\<close> or \<open>--name VALUE\<close>; a
  recognised option is consumed and its value stored in the global its row points to;
  an unrecognised or malformed option makes parsing fail with the parser's message; no
  other flag is defined, so the model has no case for the help options the library
  adds by itself; all other arguments stay in the vector. Where the spec is
  silent the model follows the library: the program name \<open>argv[0]\<close> is not parsed and
  stays in place; a lone \<open>-\<close> is an ordinary argument; \<open>--\<close> ends option parsing and is
  itself removed unless an argument after it begins with a dash; an option given again
  stores its value again. The library's conversion of a value between character sets
  is not modelled: a value is stored as it is written.

  The two ways parsing fails here: an argument that looks like an option and is in no
  row of the table, and a long option in the form \<open>--name\<close> with no argument after it.
\<close>

datatype option_error = Unknown_option string | Missing_argument string

text \<open>
  Modelled from the spec: the message of the \<open>GError\<close> that \<open>g_option_context_parse\<close>
  (not among the sources) sets, in the library's untranslated wording.
\<close>

definition error_message :: "option_error \<Rightarrow> string" where
  "error_message e =
     (case e of
        Unknown_option a \<Rightarrow> ''Unknown option '' @ a
      | Missing_argument a \<Rightarrow> ''Missing argument for '' @ a)"

text \<open>
  Modelled from the spec: the store of an option's value through the pointer
  \<open>arg_data\<close> of its row, done inside \<open>g_option_context_parse\<close> (not among the
  sources).
\<close>

definition assign :: "global_ref \<Rightarrow> string \<Rightarrow> globals \<Rightarrow> globals" where
  "assign r v g =
     (case r of
        Ref_mono_lib \<Rightarrow> g\<lparr>mono_lib := v\<rparr>
      | Ref_mono_etc \<Rightarrow> g\<lparr>mono_etc := v\<rparr>)"

text \<open>
  Modelled from the spec: the lookup of a long option's name (the argument without its
  leading \<open>--\<close>) in the table, done inside \<open>g_option_context_parse\<close> (not among the
  sources). The first row whose \<open>long_name\<close> is the whole name, or is followed in the
  name by \<open>=\<close>, gives the global to store into, and the value when it is written after
  \<open>=\<close>. Every row is read as an option with a string argument, as both rows of
  \<open>option_entries\<close> are.
\<close>

fun parse_long_option ::
  "g_option_entry list \<Rightarrow> string \<Rightarrow> (global_ref \<times> string option) option" where
  "parse_long_option [] name = None"
| "parse_long_option (e # es) name =
     (if name = long_name e then Some (arg_data e, None)
      else if prefix (long_name e @ ''='') name
        then Some (arg_data e, Some (drop (length (long_name e) + 1) name))
      else parse_long_option es name)"

text \<open>
  Modelled from the spec: the loop of \<open>g_option_context_parse\<close> (not among the sources)
  over the arguments after the program name, from left to right. The result is the
  first error, or the globals after all stores together with the arguments that were
  not consumed, in their order.
\<close>

fun parse_args ::
  "g_option_entry list \<Rightarrow> globals \<Rightarrow> string list \<Rightarrow> option_error + globals \<times> string list" where
  "parse_args es g [] = Inr (g, [])"
| "parse_args es g (a # rest) =
     (if a = ''--'' then
        Inr (g, if list_ex (prefix ''-'') rest then a # rest else rest)
      else if prefix ''--'' a then
        (case parse_long_option es (drop 2 a) of
           None \<Rightarrow> Inl (Unknown_option a)
         | Some (r, Some v) \<Rightarrow> parse_args es (assign r v g) rest
         | Some (r, None) \<Rightarrow>
             (case rest of
                [] \<Rightarrow> Inl (Missing_argument a)
              | v # rest' \<Rightarrow> parse_args es (assign r v g) rest'))
      else if prefix ''-'' a \<and> a \<noteq> ''-'' then Inl (Unknown_option a)
      else
        (case parse_args es g rest of
           Inl e \<Rightarrow> Inl e
         | Inr (g', kept) \<Rightarrow> Inr (g', a # kept)))"

text \<open>
  Modelled from the spec: \<open>g_option_context_parse\<close> itself (not among the sources), in
  the shape \<open>main\<close> uses it. An empty vector is left alone; otherwise the program name
  stays first and the arguments after it are parsed.
\<close>

definition option_parser ::
  "g_option_entry list \<Rightarrow> globals \<Rightarrow> string list \<Rightarrow> string + globals \<times> string list" where
  "option_parser es g argv =
     (case argv of
        [] \<Rightarrow> Inr (g, [])
      | prgname # args \<Rightarrow>
          (case parse_args es g args of
             Inl e \<Rightarrow> Inl (error_message e)
           | Inr (g', kept) \<Rightarrow> Inr (g', prgname # kept)))"

text \<open>
  An argument names the option \<open>n\<close> when it is \<open>--n\<close> or begins with \<open>--n=\<close>.
\<close>

definition names_option :: "string \<Rightarrow> string \<Rightarrow> bool" where
  "names_option n a \<longleftrightarrow> a = ''--'' @ n \<or> prefix (''--'' @ n @ ''='') a"

subsection \<open>Two stand-in environments\<close>

text \<open>
  \<open>main\<close> is stated for every environment. To run it on a concrete input one
  environment is needed whose parser accepts the command line as it is, and one whose
  parser rejects it; both hand out the context 1, and the first the domain 2.
\<close>

definition accepting_host :: "(nat, nat) host" where
  "accepting_host =
     \<lparr>g_option_context_new = (\<lambda>d. 1),
      g_option_context_parse = (\<lambda>es g argv. Inr (g, argv)),
      m_domain_new = (\<lambda>l e n. 2)\<rparr>"

definition rejecting_host :: "(nat, nat) host" where
  "rejecting_host =
     \<lparr>g_option_context_new = (\<lambda>d. 1),
      g_option_context_parse = (\<lambda>es g argv. Inl ''Unknown option --bogus''),
      m_domain_new = (\<lambda>l e n. 2)\<rparr>"

section \<open>Properties of main\<close>

subsection \<open>The two paths\<close>

lemma main_parse_failed:
  assumes "g_option_context_parse H option_entries globals_init argv = Inl message"
  shows "main H argv =
     \<lparr>status = 1,
      calls =
        [G_option_context_new ''- options for mono'',
         G_option_context_add_main_entries
           (g_option_context_new H ''- options for mono'') option_entries None,
         G_option_context_parse (g_option_context_new H ''- options for mono'') argv,
         G_print (''Invalid option: '' @ message @ [CHR 0x0A])]\<rparr>"
  using assms by (simp add: main_def Let_def)

lemma main_parse_ok:
  assumes "g_option_context_parse H option_entries globals_init argv = Inr (g, argv')"
  shows "main H argv =
     \<lparr>status = 0,
      calls =
        [G_option_context_new ''- options for mono'',
         G_option_context_add_main_entries
           (g_option_context_new H ''- options for mono'') option_entries None,
         G_option_context_parse (g_option_context_new H ''- options for mono'') argv,
         M_domain_new (mono_lib g) (mono_etc g) ''Launcher.exe'',
         M_load_assembly ''FSharp.Core.dll'',
         M_load_assembly ''FQuake3.Utils.dll'',
         M_load_assembly ''Engine.dll'',
         M_load_assembly ''Engine.Renderer.dll'',
         M_load_assembly ''CGame.dll'',
         M_domain_exec (m_domain_new H (mono_lib g) (mono_etc g) ''Launcher.exe'')
           ''Launcher.exe'' (int (length argv')) argv',
         M_domain_free (m_domain_new H (mono_lib g) (mono_etc g) ''Launcher.exe''),
         G_option_context_free (g_option_context_new H ''- options for mono'')]\<rparr>"
  using assms by (simp add: main_def Let_def)

subsection \<open>The assemblies\<close>

text \<open>
  Claim C1. Whenever option parsing succeeds, \<open>main\<close> calls \<open>m_load_assembly\<close>
  exactly five times, for \<open>FSharp.Core.dll\<close>, \<open>FQuake3.Utils.dll\<close>, \<open>Engine.dll\<close>,
  \<open>Engine.Renderer.dll\<close> and \<open>CGame.dll\<close> in this order, and the five calls stand
  directly between the call of \<open>m_domain_new\<close> and the call of \<open>m_domain_exec\<close>.
\<close>

theorem load_calls_in_order:
  assumes "g_option_context_parse H option_entries globals_init argv = Inr (g, argv')"
  shows "filter is_load_assembly (calls (main H argv)) =
           map M_load_assembly
             [''FSharp.Core.dll'', ''FQuake3.Utils.dll'', ''Engine.dll'',
              ''Engine.Renderer.dll'', ''CGame.dll''] \<and>
         (\<exists>pre post.
            calls (main H argv) =
              pre @
              M_domain_new (mono_lib g) (mono_etc g) ''Launcher.exe'' #
              map M_load_assembly
                [''FSharp.Core.dll'', ''FQuake3.Utils.dll'', ''Engine.dll'',
                 ''Engine.Renderer.dll'', ''CGame.dll''] @
              M_domain_exec (m_domain_new H (mono_lib g) (mono_etc g) ''Launcher.exe'')
                ''Launcher.exe'' (int (length argv')) argv' #
              post)"
proof
  show "filter is_load_assembly (calls (main H argv)) =
           map M_load_assembly
             [''FSharp.Core.dll'', ''FQuake3.Utils.dll'', ''Engine.dll'',
              ''Engine.Renderer.dll'', ''CGame.dll'']"
    by (simp add: main_parse_ok [OF assms])
next
  let ?pre = "[G_option_context_new ''- options for mono'',
         G_option_context_add_main_entries
           (g_option_context_new H ''- options for mono'') option_entries None,
         G_option_context_parse (g_option_context_new H ''- options for mono'') argv]"
  let ?post = "[M_domain_free (m_domain_new H (mono_lib g) (mono_etc g) ''Launcher.exe''),
         G_option_context_free (g_option_context_new H ''- options for mono'')]"
  have "calls (main H argv) =
              ?pre @
              M_domain_new (mono_lib g) (mono_etc g) ''Launcher.exe'' #
              map M_load_assembly
                [''FSharp.Core.dll'', ''FQuake3.Utils.dll'', ''Engine.dll'',
                 ''Engine.Renderer.dll'', ''CGame.dll''] @
              M_domain_exec (m_domain_new H (mono_lib g) (mono_etc g) ''Launcher.exe'')
                ''Launcher.exe'' (int (length argv')) argv' #
              ?post"
    by (simp add: main_parse_ok [OF assms])
  then show "\<exists>pre post.
            calls (main H argv) =
              pre @
              M_domain_new (mono_lib g) (mono_etc g) ''Launcher.exe'' #
              map M_load_assembly
                [''FSharp.Core.dll'', ''FQuake3.Utils.dll'', ''Engine.dll'',
                 ''Engine.Renderer.dll'', ''CGame.dll''] @
              M_domain_exec (m_domain_new H (mono_lib g) (mono_etc g) ''Launcher.exe'')
                ''Launcher.exe'' (int (length argv')) argv' #
              post"
    by blast
qed

text \<open>The theorem at the command line \<open>FQuake3.exe\<close>, accepted as it is.\<close>

theorem load_calls_in_order_witness:
  "g_option_context_parse accepting_host option_entries globals_init [''FQuake3.exe''] =
     Inr (globals_init, [''FQuake3.exe'']) \<and>
   filter is_load_assembly (calls (main accepting_host [''FQuake3.exe''])) =
     [M_load_assembly ''FSharp.Core.dll'', M_load_assembly ''FQuake3.Utils.dll'',
      M_load_assembly ''Engine.dll'', M_load_assembly ''Engine.Renderer.dll'',
      M_load_assembly ''CGame.dll'']"
proof -
  have h: "g_option_context_parse accepting_host option_entries globals_init [''FQuake3.exe''] =
     Inr (globals_init, [''FQuake3.exe''])"
    by (simp add: accepting_host_def)
  show ?thesis
    using h load_calls_in_order [OF h] by simp
qed

subsection \<open>Exit status\<close>

text \<open>
  Claim C3. \<open>main\<close> returns 1 exactly when \<open>g_option_context_parse\<close> fails and 0
  exactly when it succeeds, and nothing else. When parsing fails with a message, the
  text printed to standard output is \<open>Invalid option: \<close>, the message and a newline, so it
  begins with the words \<open>Invalid option\<close>.
\<close>

theorem exit_status:
  "(status (main H argv) = 1 \<longleftrightarrow>
      (\<exists>message. g_option_context_parse H option_entries globals_init argv = Inl message)) \<and>
   (status (main H argv) = 0 \<longleftrightarrow>
      (\<exists>g argv'. g_option_context_parse H option_entries globals_init argv = Inr (g, argv'))) \<and>
   (status (main H argv) = 0 \<or> status (main H argv) = 1) \<and>
   (\<forall>message. g_option_context_parse H option_entries globals_init argv = Inl message \<longrightarrow>
      stdout_text (calls (main H argv)) = ''Invalid option: '' @ message @ [CHR 0x0A] \<and>
      prefix ''Invalid option'' (stdout_text (calls (main H argv))))"
proof (cases "g_option_context_parse H option_entries globals_init argv")
  case (Inl message)
  then show ?thesis
    by (simp add: main_parse_failed [OF Inl] stdout_text_def printed_def)
next
  case (Inr r)
  obtain g argv' where r: "r = (g, argv')"
    by (cases r)
  from Inr r have ok: "g_option_context_parse H option_entries globals_init argv = Inr (g, argv')"
    by simp
  show ?thesis
    by (simp add: main_parse_ok [OF ok] ok)
qed

text \<open>
  The theorem at the command line \<open>FQuake3.exe --bogus\<close>, rejected, and at the command
  line \<open>FQuake3.exe\<close>, accepted.
\<close>

theorem exit_status_witness:
  "g_option_context_parse rejecting_host option_entries globals_init
     [''FQuake3.exe'', ''--bogus''] = Inl ''Unknown option --bogus'' \<and>
   status (main rejecting_host [''FQuake3.exe'', ''--bogus'']) = 1 \<and>
   stdout_text (calls (main rejecting_host [''FQuake3.exe'', ''--bogus''])) =
     ''Invalid option: Unknown option --bogus'' @ [CHR 0x0A] \<and>
   status (main accepting_host [''FQuake3.exe'']) = 0"
proof -
  have h: "g_option_context_parse rejecting_host option_entries globals_init
     [''FQuake3.exe'', ''--bogus''] = Inl ''Unknown option --bogus''"
    by (simp add: rejecting_host_def)
  have k: "g_option_context_parse accepting_host option_entries globals_init
     [''FQuake3.exe''] = Inr (globals_init, [''FQuake3.exe''])"
    by (simp add: accepting_host_def)
  show ?thesis
    using h k exit_status [of rejecting_host "[''FQuake3.exe'', ''--bogus'']"]
      exit_status [of accepting_host "[''FQuake3.exe'']"]
    by simp
qed

subsection \<open>Releasing the domain\<close>

text \<open>
  Claim C6. In every run that reaches \<open>m_domain_exec\<close>, \<open>m_domain_free\<close> is called
  exactly once, on the domain that was executed. In a run whose option parsing fails,
  \<open>m_domain_new\<close> is never called and \<open>m_domain_free\<close> is never called.
\<close>

theorem domain_freed_once:
  "(\<forall>d n argc args. M_domain_exec d n argc args \<in> set (calls (main H argv)) \<longrightarrow>
      filter is_domain_free (calls (main H argv)) = [M_domain_free d]) \<and>
   (\<forall>message. g_option_context_parse H option_entries globals_init argv = Inl message \<longrightarrow>
      filter is_domain_new (calls (main H argv)) = [] \<and>
      filter is_domain_free (calls (main H argv)) = [])"
proof (cases "g_option_context_parse H option_entries globals_init argv")
  case (Inl message)
  then show ?thesis
    by (simp add: main_parse_failed [OF Inl])
next
  case (Inr r)
  obtain g argv' where r: "r = (g, argv')"
    by (cases r)
  from Inr r have ok: "g_option_context_parse H option_entries globals_init argv = Inr (g, argv')"
    by simp
  show ?thesis
    by (simp add: main_parse_ok [OF ok] ok)
qed

text \<open>The theorem at an accepted and at a rejected command line.\<close>

theorem domain_freed_once_witness:
  "M_domain_exec 2 ''Launcher.exe'' 1 [''FQuake3.exe''] \<in>
     set (calls (main accepting_host [''FQuake3.exe''])) \<and>
   filter is_domain_free (calls (main accepting_host [''FQuake3.exe''])) = [M_domain_free 2] \<and>
   g_option_context_parse rejecting_host option_entries globals_init
     [''FQuake3.exe'', ''--bogus''] = Inl ''Unknown option --bogus'' \<and>
   filter is_domain_new (calls (main rejecting_host [''FQuake3.exe'', ''--bogus''])) = [] \<and>
   filter is_domain_free (calls (main rejecting_host [''FQuake3.exe'', ''--bogus''])) = []"
proof -
  have k: "g_option_context_parse accepting_host option_entries globals_init
     [''FQuake3.exe''] = Inr (globals_init, [''FQuake3.exe''])"
    by (simp add: accepting_host_def)
  have e: "M_domain_exec 2 ''Launcher.exe'' 1 [''FQuake3.exe''] \<in>
     set (calls (main accepting_host [''FQuake3.exe'']))"
    by (simp add: main_parse_ok [OF k]) (simp add: accepting_host_def)
  have h: "g_option_context_parse rejecting_host option_entries globals_init
     [''FQuake3.exe'', ''--bogus''] = Inl ''Unknown option --bogus''"
    by (simp add: rejecting_host_def)
  show ?thesis
    using e h domain_freed_once [of accepting_host "[''FQuake3.exe'']"]
      domain_freed_once [of rejecting_host "[''FQuake3.exe'', ''--bogus'']"]
    by blast
qed

subsection \<open>Order of the releases\<close>

text \<open>
  Claim C7. When option parsing succeeds, the last two calls of \<open>main\<close> are
  \<open>m_domain_free\<close> on the domain and then \<open>g_option_context_free\<close> on the option
  context, neither of them is called earlier, and \<open>main\<close> returns 0 with these calls
  made.
\<close>

theorem release_order:
  assumes "g_option_context_parse H option_entries globals_init argv = Inr (g, argv')"
  shows "status (main H argv) = 0 \<and>
         (\<exists>pre.
            calls (main H argv) =
              pre @
              [M_domain_free (m_domain_new H (mono_lib g) (mono_etc g) ''Launcher.exe''),
               G_option_context_free (g_option_context_new H ''- options for mono'')] \<and>
            filter is_domain_free pre = [] \<and>
            filter is_option_context_free pre = [])"
proof
  show "status (main H argv) = 0"
    by (simp add: main_parse_ok [OF assms])
next
  let ?pre = "butlast (butlast (calls (main H argv)))"
  have "calls (main H argv) =
              ?pre @
              [M_domain_free (m_domain_new H (mono_lib g) (mono_etc g) ''Launcher.exe''),
               G_option_context_free (g_option_context_new H ''- options for mono'')] \<and>
            filter is_domain_free ?pre = [] \<and>
            filter is_option_context_free ?pre = []"
    by (simp add: main_parse_ok [OF assms])
  then show "\<exists>pre.
            calls (main H argv) =
              pre @
              [M_domain_free (m_domain_new H (mono_lib g) (mono_etc g) ''Launcher.exe''),
               G_option_context_free (g_option_context_new H ''- options for mono'')] \<and>
            filter is_domain_free pre = [] \<and>
            filter is_option_context_free pre = []"
    by blast
qed

text \<open>The theorem at the command line \<open>FQuake3.exe\<close>, accepted as it is.\<close>

theorem release_order_witness:
  "g_option_context_parse accepting_host option_entries globals_init [''FQuake3.exe''] =
     Inr (globals_init, [''FQuake3.exe'']) \<and>
   status (main accepting_host [''FQuake3.exe'']) = 0 \<and>
   drop 10 (calls (main accepting_host [''FQuake3.exe''])) =
     [M_domain_free 2, G_option_context_free 1]"
proof -
  have h: "g_option_context_parse accepting_host option_entries globals_init [''FQuake3.exe''] =
     Inr (globals_init, [''FQuake3.exe''])"
    by (simp add: accepting_host_def)
  have n: "length (calls (main accepting_host [''FQuake3.exe''])) = 12"
    by (simp add: main_parse_ok [OF h])
  have c: "g_option_context_new accepting_host ''- options for mono'' = 1"
    and d: "m_domain_new accepting_host (mono_lib globals_init) (mono_etc globals_init)
              ''Launcher.exe'' = 2"
    by (simp_all add: accepting_host_def)
  from release_order [OF h] obtain pre where
    s: "status (main accepting_host [''FQuake3.exe'']) = 0" and
    p: "calls (main accepting_host [''FQuake3.exe'']) =
          pre @ [M_domain_free 2, G_option_context_free 1]"
    unfolding c d by blast
  from p n have "length pre = 10"
    by simp
  with p have "drop 10 (calls (main accepting_host [''FQuake3.exe''])) =
     [M_domain_free 2, G_option_context_free 1]"
    by simp
  with h s show ?thesis
    by simp
qed

subsection \<open>The option context on the failure path\<close>

text \<open>
  Claim C8. When option parsing fails, \<open>g_option_context_free\<close> is never called; a run
  in which it is called is a run in which \<open>m_domain_exec\<close> is called.
\<close>

theorem context_freed_only_after_exec:
  "(\<forall>message. g_option_context_parse H option_entries globals_init argv = Inl message \<longrightarrow>
      filter is_option_context_free (calls (main H argv)) = []) \<and>
   (list_ex is_option_context_free (calls (main H argv)) \<longrightarrow>
      list_ex is_domain_exec (calls (main H argv)))"
proof (cases "g_option_context_parse H option_entries globals_init argv")
  case (Inl message)
  then show ?thesis
    by (simp add: main_parse_failed [OF Inl])
next
  case (Inr r)
  obtain g argv' where r: "r = (g, argv')"
    by (cases r)
  from Inr r have ok: "g_option_context_parse H option_entries globals_init argv = Inr (g, argv')"
    by simp
  show ?thesis
    by (simp add: main_parse_ok [OF ok] ok)
qed

text \<open>The theorem at a rejected and at an accepted command line.\<close>

theorem context_freed_only_after_exec_witness:
  "g_option_context_parse rejecting_host option_entries globals_init
     [''FQuake3.exe'', ''--bogus''] = Inl ''Unknown option --bogus'' \<and>
   filter is_option_context_free (calls (main rejecting_host [''FQuake3.exe'', ''--bogus''])) = [] \<and>
   list_ex is_option_context_free (calls (main accepting_host [''FQuake3.exe''])) \<and>
   list_ex is_domain_exec (calls (main accepting_host [''FQuake3.exe'']))"
proof -
  have h: "g_option_context_parse rejecting_host option_entries globals_init
     [''FQuake3.exe'', ''--bogus''] = Inl ''Unknown option --bogus''"
    by (simp add: rejecting_host_def)
  have k: "g_option_context_parse accepting_host option_entries globals_init
     [''FQuake3.exe''] = Inr (globals_init, [''FQuake3.exe''])"
    by (simp add: accepting_host_def)
  have f: "list_ex is_option_context_free (calls (main accepting_host [''FQuake3.exe'']))"
    by (simp add: main_parse_ok [OF k])
  show ?thesis
    using h f context_freed_only_after_exec [of rejecting_host "[''FQuake3.exe'', ''--bogus'']"]
      context_freed_only_after_exec [of accepting_host "[''FQuake3.exe'']"]
    by blast
qed

subsection \<open>No result of the hosting library is inspected\<close>

text \<open>
  Claim C9. When option parsing succeeds, the calls into the hosting library are
  \<open>m_domain_new\<close>, the five loads, \<open>m_domain_exec\<close> and \<open>m_domain_free\<close>, all of
  them, whatever handle \<open>m_domain_new\<close> returned; that handle is passed on to
  \<open>m_domain_exec\<close> and \<open>m_domain_free\<close> as it is. The loads and the execution return
  nothing that \<open>main\<close> binds, so no result can change the sequence.
\<close>

theorem hosting_calls_unconditional:
  assumes "g_option_context_parse H option_entries globals_init argv = Inr (g, argv')"
    and "m_domain_new H (mono_lib g) (mono_etc g) ''Launcher.exe'' = domain"
  shows "filter is_hosting_call (calls (main H argv)) =
           [M_domain_new (mono_lib g) (mono_etc g) ''Launcher.exe'',
            M_load_assembly ''FSharp.Core.dll'',
            M_load_assembly ''FQuake3.Utils.dll'',
            M_load_assembly ''Engine.dll'',
            M_load_assembly ''Engine.Renderer.dll'',
            M_load_assembly ''CGame.dll'',
            M_domain_exec domain ''Launcher.exe'' (int (length argv')) argv',
            M_domain_free domain]"
  using assms(2) by (simp add: main_parse_ok [OF assms(1)] is_hosting_call_def)

text \<open>The theorem for a domain creation that returns the null handle 0.\<close>

theorem hosting_calls_unconditional_witness:
  "g_option_context_parse (accepting_host\<lparr>m_domain_new := \<lambda>l e n. 0\<rparr>) option_entries
     globals_init [''FQuake3.exe''] = Inr (globals_init, [''FQuake3.exe'']) \<and>
   m_domain_new (accepting_host\<lparr>m_domain_new := \<lambda>l e n. 0\<rparr>)
     (mono_lib globals_init) (mono_etc globals_init) ''Launcher.exe'' = 0 \<and>
   filter is_hosting_call
     (calls (main (accepting_host\<lparr>m_domain_new := \<lambda>l e n. 0\<rparr>) [''FQuake3.exe''])) =
     [M_domain_new (''Mono'' @ CHR 0x5C # ''lib'') (''Mono'' @ CHR 0x5C # ''etc'') ''Launcher.exe'',
      M_load_assembly ''FSharp.Core.dll'',
      M_load_assembly ''FQuake3.Utils.dll'',
      M_load_assembly ''Engine.dll'',
      M_load_assembly ''Engine.Renderer.dll'',
      M_load_assembly ''CGame.dll'',
      M_domain_exec 0 ''Launcher.exe'' 1 [''FQuake3.exe''],
      M_domain_free 0]"
proof -
  have h: "g_option_context_parse (accepting_host\<lparr>m_domain_new := \<lambda>l e n. 0\<rparr>) option_entries
     globals_init [''FQuake3.exe''] = Inr (globals_init, [''FQuake3.exe''])"
    by (simp add: accepting_host_def)
  have d: "m_domain_new (accepting_host\<lparr>m_domain_new := \<lambda>l e n. 0\<rparr>)
     (mono_lib globals_init) (mono_etc globals_init) ''Launcher.exe'' = 0"
    by simp
  show ?thesis
    using h d hosting_calls_unconditional [OF h d] by (simp add: globals_init_def)
qed

subsection \<open>Determinism\<close>




section \<open>The launcher with the option parser\<close>

subsection \<open>The parser on the table of main.c\<close>

lemma parse_long_option_entries:
  "parse_long_option option_entries name =
     (if name = ''mono-lib'' then Some (Ref_mono_lib, None)
      else if prefix ''mono-lib='' name then Some (Ref_mono_lib, Some (drop 9 name))
      else if name = ''mono-etc'' then Some (Ref_mono_etc, None)
      else if prefix ''mono-etc='' name then Some (Ref_mono_etc, Some (drop 9 name))
      else None)"
  by (simp add: option_entries_def eval_nat_numeral)

lemma long_option_text: "prefix ''--'' a \<Longrightarrow> a = ''--'' @ drop 2 a"
  by (auto simp: prefix_def)

lemma names_option_iff:
  "prefix ''--'' a \<Longrightarrow>
     names_option n a \<longleftrightarrow> drop 2 a = n \<or> prefix (n @ ''='') (drop 2 a)"
  by (auto simp: names_option_def prefix_def)

lemma parse_args_no_option:
  "parse_args es g args = Inr (g', kept) \<Longrightarrow> es = option_entries \<Longrightarrow>
   \<forall>a\<in>set args. \<not> names_option ''mono-lib'' a \<and> \<not> names_option ''mono-etc'' a \<Longrightarrow>
   g' = g"
proof (induction es g args arbitrary: g' kept rule: parse_args.induct)
  case (1 es g)
  then show ?case by simp
next
  case (2 es g a rest)
  show ?case
  proof (cases "a = ''--''")
    case True
    with "2.prems" show ?thesis by simp
  next
    case sep: False
    show ?thesis
    proof (cases "prefix ''--'' a")
      case True
      from "2.prems"(3) have "\<not> names_option ''mono-lib'' a" "\<not> names_option ''mono-etc'' a"
        by simp_all
      with True have "parse_long_option option_entries (drop 2 a) = None"
        by (simp add: names_option_iff parse_long_option_entries)
      with "2.prems" sep True show ?thesis
        by simp
    next
      case False
      with "2.prems" sep obtain g1 k1 where
        r: "parse_args es g rest = Inr (g1, k1)" and g1: "g1 = g'"
        by (auto split: if_splits sum.splits)
      from "2.IH"(3) [OF sep False _ r "2.prems"(2)] "2.prems" sep False r
      have "g1 = g"
        by (auto split: if_splits)
      with g1 show ?thesis by simp
    qed
  qed
qed

lemma parse_args_keeps_mono_lib:
  "parse_args es g args = Inr (g', kept) \<Longrightarrow> es = option_entries \<Longrightarrow>
   \<forall>a\<in>set args. \<not> names_option ''mono-lib'' a \<Longrightarrow>
   mono_lib g' = mono_lib g"
proof (induction es g args arbitrary: g' kept rule: parse_args.induct)
  case (1 es g)
  then show ?case by simp
next
  case (2 es g a rest)
  show ?case
  proof (cases "a = ''--''")
    case True
    with "2.prems" show ?thesis by simp
  next
    case sep: False
    show ?thesis
    proof (cases "prefix ''--'' a")
      case long: True
      from "2.prems"(3) have no: "\<not> names_option ''mono-lib'' a"
        by simp
      show ?thesis
      proof (cases "parse_long_option es (drop 2 a)")
        case None
        with "2.prems" sep long show ?thesis by simp
      next
        case (Some m)
        obtain r v where m: "m = (r, v)"
          by (cases m)
        from Some m no long "2.prems"(2) have r: "r = Ref_mono_etc"
          by (auto simp: names_option_iff parse_long_option_entries split: if_splits)
        show ?thesis
        proof (cases v)
          case None
          with "2.prems"(1) sep long Some m obtain x rest' where
            rest: "rest = x # rest'" and p: "parse_args es (assign r x g) rest' = Inr (g', kept)"
            by (cases rest) auto
          from "2.prems"(3) rest have "\<forall>a\<in>set rest'. \<not> names_option ''mono-lib'' a"
            by simp
          from "2.IH"(1) [OF sep long Some m [symmetric] None rest p "2.prems"(2) this] r
          show ?thesis
            by (simp add: assign_def)
        next
          case (Some x)
          with "2.prems"(1) sep long \<open>parse_long_option es (drop 2 a) = Some m\<close> m
          have p: "parse_args es (assign r x g) rest = Inr (g', kept)"
            by simp
          from "2.prems"(3) have "\<forall>a\<in>set rest. \<not> names_option ''mono-lib'' a"
            by simp
          from "2.IH"(2) [OF sep long \<open>parse_long_option es (drop 2 a) = Some m\<close>
              m [symmetric] Some p "2.prems"(2) this] r
          show ?thesis
            by (simp add: assign_def)
        qed
      qed
    next
      case False
      with "2.prems" sep obtain g1 k1 where
        r: "parse_args es g rest = Inr (g1, k1)" and g1: "g1 = g'"
        by (auto split: if_splits sum.splits)
      from "2.prems"(3) have "\<forall>a\<in>set rest. \<not> names_option ''mono-lib'' a"
        by simp
      from "2.IH"(3) [OF sep False _ r "2.prems"(2) this] "2.prems" sep False r
      have "mono_lib g1 = mono_lib g"
        by (auto split: if_splits)
      with g1 show ?thesis by simp
    qed
  qed
qed

lemma parse_args_append:
  "parse_args es g pre = Inr (g1, kept1) \<Longrightarrow> ''--'' \<notin> set pre \<Longrightarrow>
   parse_args es g (pre @ rest) =
     (case parse_args es g1 rest of
        Inl e \<Rightarrow> Inl e
      | Inr (g2, kept2) \<Rightarrow> Inr (g2, kept1 @ kept2))"
proof (induction es g pre arbitrary: g1 kept1 rule: parse_args.induct)
  case (1 es g)
  then show ?case
    by (simp split: sum.splits)
next
  case (2 es g a pre)
  from "2.prems"(2) have sep: "a \<noteq> ''--''" and pre: "''--'' \<notin> set pre"
    by auto
  show ?case
  proof (cases "prefix ''--'' a")
    case long: True
    show ?thesis
    proof (cases "parse_long_option es (drop 2 a)")
      case None
      with "2.prems"(1) sep long show ?thesis by simp
    next
      case (Some m)
      obtain r v where m: "m = (r, v)"
        by (cases m)
      show ?thesis
      proof (cases v)
        case None
        with "2.prems"(1) sep long Some m obtain x pre' where
          p: "pre = x # pre'" and q: "parse_args es (assign r x g) pre' = Inr (g1, kept1)"
          by (cases pre) auto
        from pre p have "''--'' \<notin> set pre'"
          by simp
        from "2.IH"(1) [OF sep long Some m [symmetric] None p q this]
        show ?thesis
          using sep long Some m None p by simp
      next
        case inline: (Some x)
        with "2.prems"(1) sep long Some m
        have q: "parse_args es (assign r x g) pre = Inr (g1, kept1)"
          by simp
        from "2.IH"(2) [OF sep long Some m [symmetric] inline q pre]
        show ?thesis
          using sep long Some m inline by simp
      qed
    qed
  next
    case False
    with "2.prems"(1) sep obtain k where
      opt: "\<not> (prefix ''-'' a \<and> a \<noteq> ''-'')" and
      q: "parse_args es g pre = Inr (g1, k)" and k: "kept1 = a # k"
      by (auto split: if_splits sum.splits)
    from "2.IH"(3) [OF sep False opt q pre]
    show ?thesis
      using sep False opt k by (auto split: sum.splits)
  qed
qed

subsection \<open>The example of the spec\<close>

text \<open>
  Claim C2. For the command line \<open>--mono-lib Custom\lib --mono-etc Custom\etc foo bar\<close>
  (after any program name), the domain is created with \<open>Custom\lib\<close>, \<open>Custom\etc\<close>
  and \<open>Launcher.exe\<close>, and \<open>m_domain_exec\<close> is given a vector of three entries: the
  program name, which is never parsed, and after it exactly the arguments \<open>foo\<close> and
  \<open>bar\<close>; both options and their values are gone.
\<close>

theorem custom_paths_example:
  "filter is_domain_new
     (calls (main (H\<lparr>g_option_context_parse := option_parser\<rparr>)
        [prgname, ''--mono-lib'', ''Custom'' @ CHR 0x5C # ''lib'',
         ''--mono-etc'', ''Custom'' @ CHR 0x5C # ''etc'', ''foo'', ''bar''])) =
     [M_domain_new (''Custom'' @ CHR 0x5C # ''lib'') (''Custom'' @ CHR 0x5C # ''etc'')
        ''Launcher.exe''] \<and>
   filter is_domain_exec
     (calls (main (H\<lparr>g_option_context_parse := option_parser\<rparr>)
        [prgname, ''--mono-lib'', ''Custom'' @ CHR 0x5C # ''lib'',
         ''--mono-etc'', ''Custom'' @ CHR 0x5C # ''etc'', ''foo'', ''bar''])) =
     [M_domain_exec
        (m_domain_new H (''Custom'' @ CHR 0x5C # ''lib'') (''Custom'' @ CHR 0x5C # ''etc'')
           ''Launcher.exe'')
        ''Launcher.exe'' 3 (prgname # [''foo'', ''bar''])]"
proof -
  let ?argv = "[prgname, ''--mono-lib'', ''Custom'' @ CHR 0x5C # ''lib'',
         ''--mono-etc'', ''Custom'' @ CHR 0x5C # ''etc'', ''foo'', ''bar'']"
  have p: "g_option_context_parse (H\<lparr>g_option_context_parse := option_parser\<rparr>)
             option_entries globals_init ?argv =
           Inr (\<lparr>mono_lib = ''Custom'' @ CHR 0x5C # ''lib'',
                 mono_etc = ''Custom'' @ CHR 0x5C # ''etc''\<rparr>,
                [prgname, ''foo'', ''bar''])"
    by (simp add: option_parser_def parse_long_option_entries assign_def globals_init_def)
  show ?thesis
    using main_parse_ok [OF p] by simp
qed

text \<open>The theorem for the program name \<open>FQuake3.exe\<close>.\<close>

theorem custom_paths_example_witness:
  "filter is_domain_exec
     (calls (main (accepting_host\<lparr>g_option_context_parse := option_parser\<rparr>)
        [''FQuake3.exe'', ''--mono-lib'', ''Custom'' @ CHR 0x5C # ''lib'',
         ''--mono-etc'', ''Custom'' @ CHR 0x5C # ''etc'', ''foo'', ''bar''])) =
     [M_domain_exec 2 ''Launcher.exe'' 3 [''FQuake3.exe'', ''foo'', ''bar'']]"
  using custom_paths_example [of accepting_host "''FQuake3.exe''"]
  by (simp add: accepting_host_def)

subsection \<open>The default paths\<close>

text \<open>
  Claim C4. When option parsing succeeds and no argument after the program name names
  \<open>mono-lib\<close> or \<open>mono-etc\<close>, the domain is created with the paths \<open>Mono\lib\<close> and
  \<open>Mono\etc\<close>.
\<close>

theorem default_paths:
  assumes "option_parser option_entries globals_init argv = Inr (g, argv')"
    and "\<forall>a\<in>set (tl argv).
           \<not> names_option ''mono-lib'' a \<and> \<not> names_option ''mono-etc'' a"
  shows "filter is_domain_new
           (calls (main (H\<lparr>g_option_context_parse := option_parser\<rparr>) argv)) =
         [M_domain_new (''Mono'' @ CHR 0x5C # ''lib'') (''Mono'' @ CHR 0x5C # ''etc'')
            ''Launcher.exe'']"
proof -
  have "g = globals_init"
  proof (cases argv)
    case Nil
    with assms(1) show ?thesis
      by (simp add: option_parser_def)
  next
    case (Cons prgname args)
    with assms(1) obtain kept where "parse_args option_entries globals_init args = Inr (g, kept)"
      by (auto simp: option_parser_def split: sum.splits)
    from parse_args_no_option [OF this refl] assms(2) Cons show ?thesis
      by simp
  qed
  with assms(1) have p: "g_option_context_parse (H\<lparr>g_option_context_parse := option_parser\<rparr>)
      option_entries globals_init argv = Inr (globals_init, argv')"
    by simp
  show ?thesis
    by (simp add: main_parse_ok [OF p] globals_init_def)
qed

text \<open>The theorem at the command line \<open>FQuake3.exe +set sv_pure 0\<close>.\<close>

theorem default_paths_witness:
  "option_parser option_entries globals_init [''FQuake3.exe'', ''+set'', ''sv_pure'', ''0''] =
     Inr (globals_init, [''FQuake3.exe'', ''+set'', ''sv_pure'', ''0'']) \<and>
   filter is_domain_new
     (calls (main (accepting_host\<lparr>g_option_context_parse := option_parser\<rparr>)
        [''FQuake3.exe'', ''+set'', ''sv_pure'', ''0''])) =
     [M_domain_new (''Mono'' @ CHR 0x5C # ''lib'') (''Mono'' @ CHR 0x5C # ''etc'')
        ''Launcher.exe'']"
proof -
  have p: "option_parser option_entries globals_init [''FQuake3.exe'', ''+set'', ''sv_pure'', ''0''] =
     Inr (globals_init, [''FQuake3.exe'', ''+set'', ''sv_pure'', ''0''])"
    by (simp add: option_parser_def)
  have n: "\<forall>a\<in>set (tl [''FQuake3.exe'', ''+set'', ''sv_pure'', ''0'']).
           \<not> names_option ''mono-lib'' a \<and> \<not> names_option ''mono-etc'' a"
    by (simp add: names_option_def)
  show ?thesis
    using p default_paths [OF p n, of accepting_host] by simp
qed

subsection \<open>The option mono-lib\<close>

text \<open>
  Claim C5 says that an invocation that supplies \<open>--mono-lib=X\<close> always configures the
  domain with the lib-path \<open>X\<close>. The command line \<open>--mono-lib=A --mono-lib=B\<close> supplies
  \<open>--mono-lib=A\<close>, parses, and configures the domain with \<open>B\<close>: each occurrence stores
  its value, and the last one stays.
\<close>

theorem mono_lib_option_counterexample:
  "''--mono-lib=A'' \<in> set [''FQuake3.exe'', ''--mono-lib=A'', ''--mono-lib=B''] \<and>
   status (main (accepting_host\<lparr>g_option_context_parse := option_parser\<rparr>)
     [''FQuake3.exe'', ''--mono-lib=A'', ''--mono-lib=B'']) = 0 \<and>
   filter is_domain_new
     (calls (main (accepting_host\<lparr>g_option_context_parse := option_parser\<rparr>)
        [''FQuake3.exe'', ''--mono-lib=A'', ''--mono-lib=B''])) =
     [M_domain_new ''B'' (''Mono'' @ CHR 0x5C # ''etc'') ''Launcher.exe''] \<and>
   ''B'' \<noteq> ''A''"
proof -
  have p: "g_option_context_parse (accepting_host\<lparr>g_option_context_parse := option_parser\<rparr>)
             option_entries globals_init [''FQuake3.exe'', ''--mono-lib=A'', ''--mono-lib=B''] =
           Inr (\<lparr>mono_lib = ''B'', mono_etc = ''Mono'' @ CHR 0x5C # ''etc''\<rparr>, [''FQuake3.exe''])"
    by (simp add: option_parser_def parse_long_option_entries assign_def globals_init_def)
  show ?thesis
    by (simp add: main_parse_ok [OF p])
qed

text \<open>
  Two more command lines on which \<open>--mono-lib=X\<close> is written and the lib-path stays
  \<open>Mono\lib\<close>: after a \<open>--mono-etc\<close> without \<open>=\<close> it is the value of that option, and
  after \<open>--\<close> it is an ordinary argument.
\<close>

lemma taken_as_value_example:
  "option_parser option_entries globals_init [''FQuake3.exe'', ''--mono-etc'', ''--mono-lib=X''] =
     Inr (\<lparr>mono_lib = ''Mono'' @ CHR 0x5C # ''lib'', mono_etc = ''--mono-lib=X''\<rparr>,
          [''FQuake3.exe''])"
  by (simp add: option_parser_def parse_long_option_entries assign_def globals_init_def)

lemma after_separator_example:
  "option_parser option_entries globals_init [''FQuake3.exe'', ''--'', ''--mono-lib=X''] =
     Inr (globals_init, [''FQuake3.exe'', ''--'', ''--mono-lib=X''])"
  by (simp add: option_parser_def)

text \<open>
  Claim C5, amended. When option parsing succeeds, the arguments before
  \<open>--mono-lib=X\<close> parse on their own (so none of them takes \<open>--mono-lib=X\<close> as its
  value) and none of them is \<open>--\<close>, and no argument after it names \<open>mono-lib\<close>, then
  the domain is created with the lib-path \<open>X\<close>, whatever else is on the command line.
\<close>

theorem mono_lib_option:
  assumes "argv = prgname # pre @ (''--mono-lib='' @ X) # post"
    and "parse_args option_entries globals_init pre = Inr (g1, kept1)"
    and "''--'' \<notin> set pre"
    and "\<forall>a\<in>set post. \<not> names_option ''mono-lib'' a"
    and "option_parser option_entries globals_init argv = Inr (g, argv')"
  shows "filter is_domain_new
           (calls (main (H\<lparr>g_option_context_parse := option_parser\<rparr>) argv)) =
         [M_domain_new X (mono_etc g) ''Launcher.exe'']"
proof -
  let ?tok = "''--mono-lib='' @ X"
  from assms(1,5) obtain kept where
    all: "parse_args option_entries globals_init (pre @ ?tok # post) = Inr (g, kept)"
    by (auto simp: option_parser_def split: sum.splits)
  with parse_args_append [OF assms(2,3), of "?tok # post"]
  obtain kept2 where
    "parse_args option_entries g1 (?tok # post) = Inr (g, kept2)"
    by (auto split: sum.splits)
  then have "parse_args option_entries (assign Ref_mono_lib X g1) post = Inr (g, kept2)"
    by (simp add: parse_long_option_entries)
  from parse_args_keeps_mono_lib [OF this refl assms(4)] have "mono_lib g = X"
    by (simp add: assign_def)
  moreover from assms(5) have "g_option_context_parse (H\<lparr>g_option_context_parse := option_parser\<rparr>)
      option_entries globals_init argv = Inr (g, argv')"
    by simp
  note main_parse_ok [OF this]
  ultimately show ?thesis
    by simp
qed

text \<open>
  The theorem at the command line
  \<open>FQuake3.exe --mono-etc E foo --mono-lib=X --mono-etc=F\<close>.
\<close>

theorem mono_lib_option_witness:
  "parse_args option_entries globals_init [''--mono-etc'', ''E'', ''foo''] =
     Inr (\<lparr>mono_lib = ''Mono'' @ CHR 0x5C # ''lib'', mono_etc = ''E''\<rparr>, [''foo'']) \<and>
   ''--'' \<notin> set [''--mono-etc'', ''E'', ''foo''] \<and>
   option_parser option_entries globals_init
     [''FQuake3.exe'', ''--mono-etc'', ''E'', ''foo'', ''--mono-lib=X'', ''--mono-etc=F''] =
     Inr (\<lparr>mono_lib = ''X'', mono_etc = ''F''\<rparr>, [''FQuake3.exe'', ''foo'']) \<and>
   filter is_domain_new
     (calls (main (accepting_host\<lparr>g_option_context_parse := option_parser\<rparr>)
        [''FQuake3.exe'', ''--mono-etc'', ''E'', ''foo'', ''--mono-lib=X'', ''--mono-etc=F''])) =
     [M_domain_new ''X'' ''F'' ''Launcher.exe'']"
proof -
  have a: "[''FQuake3.exe'', ''--mono-etc'', ''E'', ''foo'', ''--mono-lib=X'', ''--mono-etc=F''] =
     ''FQuake3.exe'' # [''--mono-etc'', ''E'', ''foo''] @ (''--mono-lib='' @ ''X'') # [''--mono-etc=F'']"
    by simp
  have b: "parse_args option_entries globals_init [''--mono-etc'', ''E'', ''foo''] =
     Inr (\<lparr>mono_lib = ''Mono'' @ CHR 0x5C # ''lib'', mono_etc = ''E''\<rparr>, [''foo''])"
    by (simp add: parse_long_option_entries assign_def globals_init_def)
  have s: "''--'' \<notin> set [''--mono-etc'', ''E'', ''foo'']"
    by simp
  have c: "\<forall>a\<in>set [''--mono-etc=F'']. \<not> names_option ''mono-lib'' a"
    by (simp add: names_option_def)
  have d: "option_parser option_entries globals_init
     [''FQuake3.exe'', ''--mono-etc'', ''E'', ''foo'', ''--mono-lib=X'', ''--mono-etc=F''] =
     Inr (\<lparr>mono_lib = ''X'', mono_etc = ''F''\<rparr>, [''FQuake3.exe'', ''foo''])"
    by (simp add: option_parser_def parse_long_option_entries assign_def globals_init_def)
  show ?thesis
    using b s d mono_lib_option [OF a b s c d, of accepting_host] by simp
qed

end
